theory Spec2Isabelle
  imports Main
begin

section \<open>The accounts table of lecture8.ipynb\<close>

text \<open>
  The notebook works on one table, created in its first SQL cell:
  \<^verbatim>\<open>
  CREATE TABLE accounts (
      account_id VARCHAR(10) PRIMARY KEY,
      balance DECIMAL(10, 2)
  );
  \<close>
  A \<open>DECIMAL(10, 2)\<close> value is a number of hundredths, of at most ten digits; it is
  modelled as an integer count of hundredths, so \<open>1000.00\<close> is \<open>100000\<close>. The column has no
  \<open>NOT NULL\<close>, so a balance is optional: \<open>None\<close> is SQL's \<open>NULL\<close>.
\<close>

type_synonym decimal = int

record account =
  account_id :: string
  balance :: "decimal option"

type_synonym accounts = "account list"

text \<open>The database holds the table or not (before \<open>CREATE TABLE\<close>, after \<open>DROP TABLE\<close>).\<close>

type_synonym database = "accounts option"

datatype error =
    UndefinedTable
  | DuplicateTable
  | UniqueViolation
  | StringDataRightTruncation
  | NumericValueOutOfRange
  | InFailedSqlTransaction
  | InvalidTransactionTermination

subsection \<open>Column types\<close>

definition fits_decimal :: "decimal option \<Rightarrow> bool" where
  \<comment> \<open>ten digits, two of them after the point: below \<open>10^8\<close> in absolute value\<close>
  "fits_decimal v = (case v of None \<Rightarrow> True | Some c \<Rightarrow> \<bar>c\<bar> < 10000000000)"

definition coerce_varchar10 :: "string \<Rightarrow> error + string" where
  \<comment> \<open>a longer string is an error, unless only spaces are cut off\<close>
  "coerce_varchar10 k =
     (if length k \<le> 10 then Inr k
      else if list_all (\<lambda>c. c = CHR '' '') (drop 10 k) then Inr (take 10 k)
      else Inl StringDataRightTruncation)"

subsection \<open>Arithmetic and comparison with NULL\<close>

definition sql_plus :: "decimal option \<Rightarrow> decimal option \<Rightarrow> decimal option" where
  "sql_plus a b = (case a of None \<Rightarrow> None | Some x \<Rightarrow> (case b of None \<Rightarrow> None | Some y \<Rightarrow> Some (x + y)))"

definition sql_minus :: "decimal option \<Rightarrow> decimal option \<Rightarrow> decimal option" where
  "sql_minus a b = (case a of None \<Rightarrow> None | Some x \<Rightarrow> (case b of None \<Rightarrow> None | Some y \<Rightarrow> Some (x - y)))"

definition sql_ge :: "decimal option \<Rightarrow> decimal option \<Rightarrow> bool option" where
  "sql_ge a b = (case a of None \<Rightarrow> None | Some x \<Rightarrow> (case b of None \<Rightarrow> None | Some y \<Rightarrow> Some (y \<le> x)))"

section \<open>The SQL statements the notebook uses, on a database\<close>

text \<open>
  A command takes the database and fails, or returns its result and the new database.
\<close>

type_synonym 'a command = "database \<Rightarrow> error + ('a \<times> database)"

definition drop_table_if_exists :: "unit command" where
  "drop_table_if_exists db = Inr ((), None)"

definition create_table :: "unit command" where
  "create_table db = (case db of None \<Rightarrow> Inr ((), Some []) | Some rows \<Rightarrow> Inl DuplicateTable)"

text \<open>
  The values of an \<open>INSERT\<close> are converted to the column types before any row is stored, so
  a value that does not fit is reported before a duplicate key is.
\<close>

definition coerce_row :: "account \<Rightarrow> error + account" where
  "coerce_row r =
     (case coerce_varchar10 (account_id r) of
        Inl e \<Rightarrow> Inl e
      | Inr k \<Rightarrow>
          if fits_decimal (balance r) then Inr \<lparr>account_id = k, balance = balance r\<rparr>
          else Inl NumericValueOutOfRange)"

fun coerce_rows :: "accounts \<Rightarrow> error + accounts" where
  "coerce_rows [] = Inr []"
| "coerce_rows (r # rs) =
     (case coerce_row r of
        Inl e \<Rightarrow> Inl e
      | Inr r' \<Rightarrow> (case coerce_rows rs of Inl e \<Rightarrow> Inl e | Inr rs' \<Rightarrow> Inr (r' # rs')))"

definition insert_row :: "account \<Rightarrow> accounts \<Rightarrow> error + accounts" where
  \<comment> \<open>the primary key: no second row with the same \<open>account_id\<close>\<close>
  "insert_row r rows =
     (if account_id r \<in> set (map account_id rows) then Inl UniqueViolation
      else Inr (rows @ [r]))"

fun insert_rows :: "accounts \<Rightarrow> accounts \<Rightarrow> error + accounts" where
  "insert_rows [] rows = Inr rows"
| "insert_rows (r # rs) rows =
     (case insert_row r rows of Inl e \<Rightarrow> Inl e | Inr rows' \<Rightarrow> insert_rows rs rows')"

definition insert_returning :: "accounts \<Rightarrow> accounts command" where
  \<comment> \<open>\<open>INSERT INTO accounts (account_id, balance) VALUES ... RETURNING *\<close>\<close>
  "insert_returning new db =
     (case db of
        None \<Rightarrow> Inl UndefinedTable
      | Some rows \<Rightarrow>
          (case coerce_rows new of
             Inl e \<Rightarrow> Inl e
           | Inr new' \<Rightarrow>
               (case insert_rows new' rows of
                  Inl e \<Rightarrow> Inl e
                | Inr rows' \<Rightarrow> Inr (new', Some rows'))))"

definition set_balance_where :: "(decimal option \<Rightarrow> decimal option) \<Rightarrow> string \<Rightarrow> accounts \<Rightarrow> accounts" where
  \<comment> \<open>the rows after \<open>SET balance = f balance WHERE account_id = k\<close>\<close>
  "set_balance_where f k rows =
     map (\<lambda>r. if account_id r = k then r\<lparr>balance := f (balance r)\<rparr> else r) rows"

definition update_fits :: "(decimal option \<Rightarrow> decimal option) \<Rightarrow> string \<Rightarrow> accounts \<Rightarrow> bool" where
  \<comment> \<open>every new balance of the rows selected by \<open>WHERE account_id = k\<close> fits the column\<close>
  "update_fits f k rows =
     list_all fits_decimal (map (\<lambda>r. f (balance r)) (filter (\<lambda>r. account_id r = k) rows))"

definition update_balance :: "(decimal option \<Rightarrow> decimal option) \<Rightarrow> string \<Rightarrow> nat command" where
  \<comment> \<open>\<open>UPDATE accounts SET balance = f balance WHERE account_id = k\<close>; returns the row count\<close>
  "update_balance f k db =
     (case db of
        None \<Rightarrow> Inl UndefinedTable
      | Some rows \<Rightarrow>
          if update_fits f k rows
          then Inr (length (filter (\<lambda>r. account_id r = k) rows), Some (set_balance_where f k rows))
          else Inl NumericValueOutOfRange)"

definition balance_of :: "accounts \<Rightarrow> string \<Rightarrow> decimal option" where
  \<comment> \<open>the balance of the row of \<open>k\<close>; NULL when there is none\<close>
  "balance_of rows k =
     (case find (\<lambda>r. account_id r = k) rows of None \<Rightarrow> None | Some r \<Rightarrow> balance r)"

definition select_balance :: "string \<Rightarrow> (decimal option) command" where
  \<comment> \<open>\<open>SELECT balance FROM accounts WHERE account_id = k\<close>, as \<open>SELECT ... INTO\<close> reads it\<close>
  "select_balance k db =
     (case db of None \<Rightarrow> Inl UndefinedTable | Some rows \<Rightarrow> Inr (balance_of rows k, db))"

definition select_all :: "accounts command" where
  \<comment> \<open>\<open>SELECT * FROM accounts\<close>\<close>
  "select_all db = (case db of None \<Rightarrow> Inl UndefinedTable | Some rows \<Rightarrow> Inr (rows, db))"

section \<open>Sessions and transactions\<close>

text \<open>
  A session is the committed database and the state of the transaction: none open
  (\<open>Idle\<close>); a transaction block opened by \<open>BEGIN\<close>, with its working copy of the database
  (\<open>Active\<close>); the transaction of a \<open>DO\<close> block that was started outside a transaction
  block, with its working copy (\<open>Block\<close>); or a transaction that failed and waits for its
  end (\<open>Failed\<close>). A statement outside a transaction is committed at once.
\<close>

datatype tx_status = Idle | Active database | Block database | Failed

record session =
  stored :: database
  tx :: tx_status

type_synonym 'a stmt = "session \<Rightarrow> (error + 'a) \<times> session"

definition raise_error :: "error \<Rightarrow> 'a stmt" where
  \<comment> \<open>an error inside an open transaction makes the transaction fail\<close>
  "raise_error e s =
     (Inl e,
      case tx s of
        Idle \<Rightarrow> s
      | Active w \<Rightarrow> s\<lparr>tx := Failed\<rparr>
      | Block w \<Rightarrow> s\<lparr>tx := Failed\<rparr>
      | Failed \<Rightarrow> s)"

definition return_stmt :: "'a \<Rightarrow> 'a stmt" where
  "return_stmt a s = (Inr a, s)"

definition bind_stmt :: "'a stmt \<Rightarrow> ('a \<Rightarrow> 'b stmt) \<Rightarrow> 'b stmt" where
  \<comment> \<open>the statements of a cell or block run in order and stop at the first error\<close>
  "bind_stmt m f s = (case m s of (Inl e, s') \<Rightarrow> (Inl e, s') | (Inr a, s') \<Rightarrow> f a s')"

definition then_stmt :: "'a stmt \<Rightarrow> 'b stmt \<Rightarrow> 'b stmt" where
  "then_stmt m n = bind_stmt m (\<lambda>a. n)"

definition run_sql :: "'a command \<Rightarrow> 'a stmt" where
  "run_sql c s =
     (case tx s of
        Idle \<Rightarrow>
          (case c (stored s) of
             Inl e \<Rightarrow> raise_error e s
           | Inr (a, db) \<Rightarrow> (Inr a, s\<lparr>stored := db\<rparr>))
      | Active w \<Rightarrow>
          (case c w of
             Inl e \<Rightarrow> raise_error e s
           | Inr (a, w') \<Rightarrow> (Inr a, s\<lparr>tx := Active w'\<rparr>))
      | Block w \<Rightarrow>
          (case c w of
             Inl e \<Rightarrow> raise_error e s
           | Inr (a, w') \<Rightarrow> (Inr a, s\<lparr>tx := Block w'\<rparr>))
      | Failed \<Rightarrow> raise_error InFailedSqlTransaction s)"

subsection \<open>Transaction statements sent on their own\<close>

definition begin_tx :: "unit stmt" where
  \<comment> \<open>\<open>BEGIN\<close>; inside a transaction it only warns\<close>
  "begin_tx s =
     (case tx s of
        Idle \<Rightarrow> (Inr (), s\<lparr>tx := Active (stored s)\<rparr>)
      | Active w \<Rightarrow> (Inr (), s)
      | Block w \<Rightarrow> (Inr (), s)
      | Failed \<Rightarrow> raise_error InFailedSqlTransaction s)"

definition commit_tx :: "unit stmt" where
  \<comment> \<open>\<open>COMMIT\<close>; outside a transaction it only warns, a failed transaction is rolled back\<close>
  "commit_tx s =
     (case tx s of
        Idle \<Rightarrow> (Inr (), s)
      | Active w \<Rightarrow> (Inr (), \<lparr>stored = w, tx = Idle\<rparr>)
      | Block w \<Rightarrow> (Inr (), \<lparr>stored = w, tx = Idle\<rparr>)
      | Failed \<Rightarrow> (Inr (), s\<lparr>tx := Idle\<rparr>))"

definition rollback_tx :: "unit stmt" where
  \<comment> \<open>\<open>ROLLBACK\<close>\<close>
  "rollback_tx s = (Inr (), s\<lparr>tx := Idle\<rparr>)"

subsection \<open>Procedural blocks\<close>

text \<open>
  A \<open>DO\<close> block is one statement. Sent outside a transaction block it runs in a
  transaction of its own, which is committed when the block ends and undone when a
  statement of the block raises; there, a \<open>COMMIT\<close> or \<open>ROLLBACK\<close> of the block ends the
  current transaction and a new one starts for the statements that follow. Sent inside a
  transaction block, the statements of the block run in that transaction, and a \<open>COMMIT\<close>
  or \<open>ROLLBACK\<close> of the block raises \<open>invalid_transaction_termination\<close>. The statements
  of a block always run inside a transaction.
\<close>

definition assign_decimal :: "decimal option \<Rightarrow> (decimal option) stmt" where
  \<comment> \<open>a value stored in a \<open>DECIMAL(10, 2)\<close> variable, at its declaration or by \<open>SELECT ... INTO\<close>\<close>
  "assign_decimal v s =
     (if fits_decimal v then (Inr v, s) else raise_error NumericValueOutOfRange s)"

definition block_commit :: "unit stmt" where
  \<comment> \<open>\<open>COMMIT\<close> as a statement of a block\<close>
  "block_commit s =
     (case tx s of
        Idle \<Rightarrow> (Inr (), s)
      | Active w \<Rightarrow> raise_error InvalidTransactionTermination s
      | Block w \<Rightarrow> (Inr (), s\<lparr>stored := w\<rparr>)
      | Failed \<Rightarrow> raise_error InFailedSqlTransaction s)"

definition block_rollback :: "unit stmt" where
  \<comment> \<open>\<open>ROLLBACK\<close> as a statement of a block\<close>
  "block_rollback s =
     (case tx s of
        Idle \<Rightarrow> (Inr (), s)
      | Active w \<Rightarrow> raise_error InvalidTransactionTermination s
      | Block w \<Rightarrow> (Inr (), s\<lparr>tx := Block (stored s)\<rparr>)
      | Failed \<Rightarrow> raise_error InFailedSqlTransaction s)"

definition start_block :: "session \<Rightarrow> session" where
  \<comment> \<open>the transaction of a block sent outside a transaction block begins\<close>
  "start_block s = s\<lparr>tx := Block (stored s)\<rparr>"

definition finish_block :: "(error + 'a) \<times> session \<Rightarrow> (error + unit) \<times> session" where
  \<comment> \<open>and ends: undone after an error, committed otherwise\<close>
  "finish_block r =
     (case r of
        (Inl e, s') \<Rightarrow> (Inl e, s'\<lparr>tx := Idle\<rparr>)
      | (Inr a, s') \<Rightarrow> commit_tx s')"

definition do_block :: "'a stmt \<Rightarrow> unit stmt" where
  \<comment> \<open>\<open>DO $$ ... END $$\<close>\<close>
  "do_block body s =
     (case tx s of
        Idle \<Rightarrow> finish_block (body (start_block s))
      | Active w \<Rightarrow>
          (case body s of
             (Inl e, s') \<Rightarrow> (Inl e, s')
           | (Inr a, s') \<Rightarrow> (Inr (), s'))
      | Block w \<Rightarrow>
          (case body s of
             (Inl e, s') \<Rightarrow> (Inl e, s')
           | (Inr a, s') \<Rightarrow> (Inr (), s'))
      | Failed \<Rightarrow> raise_error InFailedSqlTransaction s)"

subsection \<open>The cell magic\<close>

text \<open>
  The notebook sends its SQL through the \<open>%%sql\<close> cell magic, loaded in cell 3 and used
  with its default settings. The magic splits a cell into statements (a \<open>DO\<close> block is one
  statement), sends them one by one and commits after each; at the first statement that
  raises, the cell stops and the session is left with no open transaction. Each line
  \<open>Done.\<close> or \<open>n rows affected.\<close> in a recorded output is one statement sent this way. So a
  \<open>BEGIN\<close> of a cell opens a transaction that is committed at once, and the statements after
  it run outside a transaction block: the \<open>COMMIT\<close> inside the block of cell 41 ran without
  error, as the output recorded after the cell shows.
\<close>

definition sql_magic :: "'a stmt \<Rightarrow> 'a stmt" where
  "sql_magic st s =
     (case st s of
        (Inl e, s') \<Rightarrow> (Inl e, s'\<lparr>tx := Idle\<rparr>)
      | (Inr a, s') \<Rightarrow> (Inr a, snd (commit_tx s')))"

section \<open>The cells of the notebook\<close>

definition row :: "string \<Rightarrow> decimal \<Rightarrow> account" where
  "row k c = \<lparr>account_id = k, balance = Some c\<rparr>"

text \<open>
  Cell 8:
  \<^verbatim>\<open>
  DROP TABLE IF EXISTS accounts;
  CREATE TABLE accounts (...);
  INSERT INTO accounts (account_id, balance) VALUES
      ('A', 1000.00),
      ('B', 500.00)
  RETURNING *;
  \<close>
\<close>

definition cell8 :: "accounts stmt" where
  "cell8 =
     then_stmt (sql_magic (run_sql drop_table_if_exists))
    (then_stmt (sql_magic (run_sql create_table))
               (sql_magic (run_sql (insert_returning [row ''A'' 100000, row ''B'' 50000]))))"

text \<open>
  Cell 22, with the accounts and the amount as parameters:
  \<^verbatim>\<open>
  BEGIN;
  UPDATE accounts SET balance = balance - 100 WHERE account_id = 'A';
  UPDATE accounts SET balance = balance + 100 WHERE account_id = 'B';
  COMMIT;
  \<close>
  The four statements are sent one by one, each committed on its own.
\<close>

definition transfer :: "string \<Rightarrow> string \<Rightarrow> decimal \<Rightarrow> unit stmt" where
  "transfer src dst amount =
     then_stmt (sql_magic begin_tx)
    (then_stmt (sql_magic (run_sql (update_balance (\<lambda>b. sql_minus b (Some amount)) src)))
    (then_stmt (sql_magic (run_sql (update_balance (\<lambda>b. sql_plus b (Some amount)) dst)))
               (sql_magic commit_tx)))"

definition cell22 :: "unit stmt" where
  "cell22 = transfer ''A'' ''B'' 10000"

text \<open>
  Cell 35, with the account and the amount as parameters:
  \<^verbatim>\<open>
  DO $$
  DECLARE
      deposit_amount DECIMAL(10, 2) := 100;
  BEGIN
      UPDATE accounts SET balance = balance + deposit_amount WHERE account_id = 'A';
  END $$;
  \<close>
\<close>

definition deposit :: "string \<Rightarrow> decimal \<Rightarrow> unit stmt" where
  "deposit k amount =
     sql_magic
       (do_block
          (bind_stmt (assign_decimal (Some amount)) (\<lambda>deposit_amount.
             run_sql (update_balance (\<lambda>b. sql_plus b deposit_amount) k))))"

definition cell35 :: "unit stmt" where
  "cell35 = deposit ''A'' 10000"

text \<open>
  Cell 41, with the accounts and the amount as parameters:
  \<^verbatim>\<open>
  BEGIN;
  DO $$
  DECLARE
      transaction_amount DECIMAL(10, 2) := 100;
  BEGIN
      UPDATE accounts SET balance = balance - transaction_amount WHERE account_id = 'A';
      UPDATE accounts SET balance = balance + transaction_amount WHERE account_id = 'B';
      COMMIT;
  END $$;
  \<close>
  Two statements are sent: \<open>BEGIN\<close>, and the block, which runs in its own transaction.
\<close>

definition transfer_block :: "string \<Rightarrow> string \<Rightarrow> decimal \<Rightarrow> unit stmt" where
  "transfer_block src dst amount =
     then_stmt (sql_magic begin_tx)
       (sql_magic
          (do_block
             (bind_stmt (assign_decimal (Some amount)) (\<lambda>transaction_amount.
                then_stmt (run_sql (update_balance (\<lambda>b. sql_minus b transaction_amount) src))
               (then_stmt (run_sql (update_balance (\<lambda>b. sql_plus b transaction_amount) dst))
                          block_commit)))))"

definition cell41 :: "unit stmt" where
  "cell41 = transfer_block ''A'' ''B'' 10000"

text \<open>
  Cell 48, with the amount as a parameter:
  \<^verbatim>\<open>
  BEGIN;
  DO $$
  DECLARE
      transaction_amount DECIMAL(10, 2) := 10000;
      account_a_balance DECIMAL(10, 2);
  BEGIN
      UPDATE accounts SET balance = balance - transaction_amount WHERE account_id = 'A';
      UPDATE accounts SET balance = balance + transaction_amount WHERE account_id = 'B';
      SELECT balance INTO account_a_balance FROM accounts WHERE account_id = 'A';
      IF account_a_balance >= 0 THEN
          COMMIT;
      ELSE
          ROLLBACK;
      END IF;
  END $$;
  \<close>
  The block is cut in two at the \<open>IF\<close>: \<open>checked_transfer_read\<close> runs up to the
  \<open>SELECT ... INTO\<close> and returns the value of \<open>account_a_balance\<close>, and
  \<open>commit_or_rollback\<close> is the \<open>IF\<close>, which takes its \<open>ELSE\<close> branch unless the
  condition is true (a NULL is not).
\<close>

definition checked_transfer_read :: "decimal \<Rightarrow> (decimal option) stmt" where
  "checked_transfer_read amount =
     bind_stmt (assign_decimal (Some amount)) (\<lambda>transaction_amount.
     bind_stmt (assign_decimal None) (\<lambda>account_a_balance.
       then_stmt (run_sql (update_balance (\<lambda>b. sql_minus b transaction_amount) ''A''))
      (then_stmt (run_sql (update_balance (\<lambda>b. sql_plus b transaction_amount) ''B''))
                 (bind_stmt (run_sql (select_balance ''A'')) assign_decimal))))"

definition commit_or_rollback :: "decimal option \<Rightarrow> unit stmt" where
  "commit_or_rollback account_a_balance =
     (if sql_ge account_a_balance (Some 0) = Some True then block_commit else block_rollback)"

definition checked_transfer :: "decimal \<Rightarrow> unit stmt" where
  "checked_transfer amount =
     then_stmt (sql_magic begin_tx)
       (sql_magic (do_block (bind_stmt (checked_transfer_read amount) commit_or_rollback)))"

definition cell48 :: "unit stmt" where
  "cell48 = checked_transfer 1000000"

text \<open>The cells that only read: \<open>SELECT * FROM accounts\<close> (cells 20, 24, 33, 37, 40, 43, 46, 50).\<close>

definition cell_select :: "accounts stmt" where
  "cell_select = sql_magic (run_sql select_all)"

text \<open>
  The outputs the notebook records for these cells. A \<open>SELECT\<close> without \<open>ORDER BY\<close> returns
  the rows in no particular order (cell 37 lists B first), so an output is compared with
  the table as a set of rows.
\<close>

definition recorded_cell20 :: accounts where
  "recorded_cell20 = [row ''A'' 100000, row ''B'' 50000]"

definition recorded_cell24 :: accounts where
  "recorded_cell24 = [row ''A'' 90000, row ''B'' 60000]"

definition recorded_cell37 :: accounts where
  "recorded_cell37 = [row ''B'' 60000, row ''A'' 100000]"

definition recorded_cell43 :: accounts where
  "recorded_cell43 = [row ''A'' 90000, row ''B'' 70000]"

definition recorded_cell50 :: accounts where
  "recorded_cell50 = [row ''A'' 90000, row ''B'' 70000]"

definition shows_rows :: "session \<Rightarrow> accounts \<Rightarrow> bool" where
  \<comment> \<open>\<open>SELECT * FROM accounts\<close> in this session returns exactly these rows, in some order\<close>
  "shows_rows s recorded =
     (case fst (cell_select s) of
        Inl e \<Rightarrow> False
      | Inr rows \<Rightarrow> set rows = set recorded \<and> length rows = length recorded)"

text \<open>The session before the first cell, and the session after each cell run in order.\<close>

definition fresh :: session where
  "fresh = \<lparr>stored = None, tx = Idle\<rparr>"

definition after_cell8 :: session where
  "after_cell8 = snd (cell8 fresh)"

definition after_cell22 :: session where
  "after_cell22 = snd (cell22 after_cell8)"

definition after_cell35 :: session where
  "after_cell35 = snd (cell35 after_cell22)"

definition after_cell41 :: session where
  "after_cell41 = snd (cell41 after_cell35)"

definition after_cell48 :: session where
  "after_cell48 = snd (cell48 after_cell41)"

text \<open>The account ids of the table, in row order, and the sessions that have exactly these.\<close>

definition ids :: "database \<Rightarrow> string list option" where
  "ids db = map_option (map account_id) db"

definition keeps :: "string list \<Rightarrow> session \<Rightarrow> bool" where
  "keeps ks s =
     (ids (stored s) = Some ks \<and>
      (case tx s of
         Idle \<Rightarrow> True
       | Active w \<Rightarrow> ids w = Some ks
       | Block w \<Rightarrow> ids w = Some ks
       | Failed \<Rightarrow> True))"

text \<open>The rows after the debit and after the credit of a transfer.\<close>

definition debit :: "decimal \<Rightarrow> string \<Rightarrow> accounts \<Rightarrow> accounts" where
  "debit amount k rows = set_balance_where (\<lambda>b. sql_minus b (Some amount)) k rows"

definition credit :: "decimal \<Rightarrow> string \<Rightarrow> accounts \<Rightarrow> accounts" where
  "credit amount k rows = set_balance_where (\<lambda>b. sql_plus b (Some amount)) k rows"

text \<open>The invariant the notebook teaches: no balance is negative.\<close>

definition non_negative :: "accounts \<Rightarrow> bool" where
  "non_negative rows =
     list_all (\<lambda>r. case balance r of None \<Rightarrow> True | Some c \<Rightarrow> 0 \<le> c) rows"

section \<open>Evaluation of the statements\<close>

lemmas command_defs =
  drop_table_if_exists_def create_table_def coerce_row_def insert_row_def insert_returning_def
  set_balance_where_def update_fits_def update_balance_def balance_of_def select_balance_def
  select_all_def fits_decimal_def coerce_varchar10_def sql_plus_def sql_minus_def sql_ge_def
  row_def

lemmas stmt_defs =
  raise_error_def return_stmt_def bind_stmt_def then_stmt_def run_sql_def begin_tx_def
  commit_tx_def rollback_tx_def assign_decimal_def block_commit_def block_rollback_def
  start_block_def finish_block_def do_block_def sql_magic_def

lemma cell8_Idle:
  "tx s = Idle \<Longrightarrow>
   cell8 s = (Inr [row ''A'' 100000, row ''B'' 50000],
              \<lparr>stored = Some [row ''A'' 100000, row ''B'' 50000], tx = Idle\<rparr>)"
  by (cases s) (simp add: cell8_def stmt_defs command_defs)

lemma after_cell8_eq: "after_cell8 = \<lparr>stored = Some [row ''A'' 100000, row ''B'' 50000], tx = Idle\<rparr>"
  by (simp add: after_cell8_def fresh_def cell8_Idle)

subsection \<open>Balances after an update\<close>

lemma balance_of_set_same:
  "balance_of (set_balance_where f k rows) k =
     (if k \<in> set (map account_id rows) then f (balance_of rows k) else None)"
  by (induction rows) (auto simp: balance_of_def set_balance_where_def)

lemma balance_of_set_other:
  "k' \<noteq> k \<Longrightarrow> balance_of (set_balance_where f k rows) k' = balance_of rows k'"
  by (induction rows) (auto simp: balance_of_def set_balance_where_def)

lemma fits_balance_of_update:
  "update_fits f k rows \<Longrightarrow> fits_decimal (balance_of (set_balance_where f k rows) k)"
  by (induction rows) (auto simp: balance_of_def set_balance_where_def update_fits_def fits_decimal_def)

lemma ids_set_balance_where: "map account_id (set_balance_where f k rows) = map account_id rows"
  by (induction rows) (auto simp: set_balance_where_def)

lemma balance_of_Some_mem: "balance_of rows k = Some a \<Longrightarrow> k \<in> set (map account_id rows)"
  by (induction rows) (auto simp: balance_of_def split: if_splits)

lemma balance_of_moved:
  assumes "src \<noteq> dst" "balance_of rows src = Some a" "balance_of rows dst = Some b"
  shows "balance_of (credit amount dst (debit amount src rows)) src = Some (a - amount)"
    and "balance_of (credit amount dst (debit amount src rows)) dst = Some (b + amount)"
  using assms balance_of_Some_mem [of rows src a] balance_of_Some_mem [of rows dst b]
  by (simp_all add: credit_def debit_def balance_of_set_other balance_of_set_same
      ids_set_balance_where sql_minus_def sql_plus_def)

lemma balance_of_debited:
  assumes "balance_of rows ''A'' = Some a"
  shows "balance_of (credit amount ''B'' (debit amount ''A'' rows)) ''A'' = Some (a - amount)"
  using assms balance_of_Some_mem [of rows "''A''" a]
  by (simp add: credit_def debit_def balance_of_set_other balance_of_set_same sql_minus_def)

subsection \<open>Statements sent by the cell magic on a session with no open transaction\<close>

lemma magic_begin_Idle: "tx s = Idle \<Longrightarrow> sql_magic begin_tx s = (Inr (), s)"
  by (cases s) (simp add: sql_magic_def begin_tx_def commit_tx_def)

lemma magic_commit_Idle: "tx s = Idle \<Longrightarrow> sql_magic commit_tx s = (Inr (), s)"
  by (cases s) (simp add: sql_magic_def commit_tx_def)

lemma magic_update_Idle:
  "tx s = Idle \<Longrightarrow> stored s = Some rows \<Longrightarrow>
   sql_magic (run_sql (update_balance f k)) s =
     (if update_fits f k rows
      then (Inr (length (filter (\<lambda>r. account_id r = k) rows)),
            s\<lparr>stored := Some (set_balance_where f k rows)\<rparr>)
      else (Inl NumericValueOutOfRange, s))"
  by (cases s) (simp add: sql_magic_def run_sql_def update_balance_def raise_error_def commit_tx_def)

lemma magic_do_block_Idle:
  "tx s = Idle \<Longrightarrow> sql_magic (do_block body) s = finish_block (body (start_block s))"
  by (auto simp: sql_magic_def do_block_def finish_block_def commit_tx_def
      split: prod.splits sum.splits tx_status.splits)

lemma bind_Inr: "m s = (Inr a, s') \<Longrightarrow> bind_stmt m f s = f a s'"
  by (simp add: bind_stmt_def)

lemma after_begin_Idle: "tx s = Idle \<Longrightarrow> then_stmt (sql_magic begin_tx) n s = n s"
  by (simp add: then_stmt_def bind_Inr [OF magic_begin_Idle])

lemma run_update_Block:
  "tx s = Block (Some rows) \<Longrightarrow>
   run_sql (update_balance f k) s =
     (if update_fits f k rows
      then (Inr (length (filter (\<lambda>r. account_id r = k) rows)),
            s\<lparr>tx := Block (Some (set_balance_where f k rows))\<rparr>)
      else (Inl NumericValueOutOfRange, s\<lparr>tx := Failed\<rparr>))"
  by (simp add: run_sql_def update_balance_def raise_error_def)

lemma run_select_Block:
  "tx s = Block (Some rows) \<Longrightarrow>
   run_sql (select_balance k) s = (Inr (balance_of rows k), s)"
  by (cases s) (simp add: run_sql_def select_balance_def)

lemma transfer_Idle:
  assumes "tx s = Idle" "stored s = Some rows"
  shows "transfer src dst amount s =
     (if \<not> update_fits (\<lambda>b. sql_minus b (Some amount)) src rows
      then (Inl NumericValueOutOfRange, s)
      else if \<not> update_fits (\<lambda>b. sql_plus b (Some amount)) dst (debit amount src rows)
      then (Inl NumericValueOutOfRange, s\<lparr>stored := Some (debit amount src rows)\<rparr>)
      else (Inr (), s\<lparr>stored := Some (credit amount dst (debit amount src rows))\<rparr>))"
proof -
  let ?d = "s\<lparr>stored := Some (debit amount src rows)\<rparr>"
  let ?c = "s\<lparr>stored := Some (credit amount dst (debit amount src rows))\<rparr>"
  have d: "tx ?d = Idle" "stored ?d = Some (debit amount src rows)"
    using assms by simp_all
  have c: "tx ?c = Idle"
    using assms by simp
  note debit_step = magic_update_Idle [OF assms, of "\<lambda>b. sql_minus b (Some amount)" src,
      folded debit_def]
  note credit_step = magic_update_Idle [OF d, of "\<lambda>b. sql_plus b (Some amount)" dst,
      folded credit_def]
  have "transfer src dst amount s =
      then_stmt (sql_magic (run_sql (update_balance (\<lambda>b. sql_minus b (Some amount)) src)))
     (then_stmt (sql_magic (run_sql (update_balance (\<lambda>b. sql_plus b (Some amount)) dst)))
                (sql_magic commit_tx)) s"
    unfolding transfer_def by (rule after_begin_Idle [OF assms(1)])
  then show ?thesis
    by (simp add: then_stmt_def bind_stmt_def debit_step credit_step magic_commit_Idle [OF c])
qed

lemma transfer_block_Idle:
  assumes "tx s = Idle" "stored s = Some rows"
  shows "transfer_block src dst amount s =
     (if fits_decimal (Some amount) \<and>
         update_fits (\<lambda>b. sql_minus b (Some amount)) src rows \<and>
         update_fits (\<lambda>b. sql_plus b (Some amount)) dst (debit amount src rows)
      then (Inr (), s\<lparr>stored := Some (credit amount dst (debit amount src rows))\<rparr>)
      else (Inl NumericValueOutOfRange, s))"
proof -
  have s: "s = \<lparr>stored = Some rows, tx = Idle\<rparr>"
    using assms by (cases s) simp
  have "transfer_block src dst amount s =
      finish_block
        (bind_stmt (assign_decimal (Some amount)) (\<lambda>transaction_amount.
           then_stmt (run_sql (update_balance (\<lambda>b. sql_minus b transaction_amount) src))
          (then_stmt (run_sql (update_balance (\<lambda>b. sql_plus b transaction_amount) dst))
                     block_commit)) (start_block s))"
    unfolding transfer_block_def
    by (simp only: after_begin_Idle [OF assms(1)] magic_do_block_Idle [OF assms(1)])
  then show ?thesis
    unfolding s
    by (simp add: then_stmt_def bind_stmt_def start_block_def finish_block_def
        assign_decimal_def raise_error_def run_update_Block block_commit_def commit_tx_def
        debit_def credit_def)
qed

lemma checked_transfer_read_Block:
  assumes "tx s = Block (Some rows)"
  shows "checked_transfer_read amount s =
     (if fits_decimal (Some amount) \<and>
         update_fits (\<lambda>b. sql_minus b (Some amount)) ''A'' rows \<and>
         update_fits (\<lambda>b. sql_plus b (Some amount)) ''B'' (debit amount ''A'' rows)
      then (Inr (balance_of (credit amount ''B'' (debit amount ''A'' rows)) ''A''),
            s\<lparr>tx := Block (Some (credit amount ''B'' (debit amount ''A'' rows)))\<rparr>)
      else (Inl NumericValueOutOfRange, s\<lparr>tx := Failed\<rparr>))"
proof -
  have fits: "fits_decimal (balance_of (credit amount ''B'' (debit amount ''A'' rows)) ''A'')"
    if "update_fits (\<lambda>b. sql_minus b (Some amount)) ''A'' rows"
    using that fits_balance_of_update [of "\<lambda>b. sql_minus b (Some amount)" "''A''" rows]
    by (simp add: credit_def debit_def balance_of_set_other)
  show ?thesis
    using assms fits
    by (cases s) (simp add: checked_transfer_read_def then_stmt_def bind_stmt_def
      assign_decimal_def raise_error_def run_update_Block run_select_Block
      debit_def credit_def fits_decimal_def [of None])
qed

lemma checked_transfer_split:
  "tx s = Idle \<Longrightarrow>
   checked_transfer amount s =
     finish_block (bind_stmt (checked_transfer_read amount) commit_or_rollback (start_block s))"
  unfolding checked_transfer_def
  by (simp only: after_begin_Idle magic_do_block_Idle)

lemma checked_transfer_Idle:
  assumes "tx s = Idle" "stored s = Some rows"
  shows "checked_transfer amount s =
     (if fits_decimal (Some amount) \<and>
         update_fits (\<lambda>b. sql_minus b (Some amount)) ''A'' rows \<and>
         update_fits (\<lambda>b. sql_plus b (Some amount)) ''B'' (debit amount ''A'' rows)
      then (Inr (),
            s\<lparr>stored := Some
                (if sql_ge (balance_of (credit amount ''B'' (debit amount ''A'' rows)) ''A'') (Some 0) = Some True
                 then credit amount ''B'' (debit amount ''A'' rows) else rows)\<rparr>)
      else (Inl NumericValueOutOfRange, s))"
proof -
  let ?w = "\<lparr>stored = Some rows, tx = Block (Some rows)\<rparr>"
  have s: "s = \<lparr>stored = Some rows, tx = Idle\<rparr>"
    using assms by (cases s) simp
  have "tx ?w = Block (Some rows)" by simp
  note rd = checked_transfer_read_Block [OF this, of amount]
  show ?thesis
    unfolding checked_transfer_split [OF assms(1)] unfolding s
    by (simp add: start_block_def finish_block_def bind_stmt_def rd
        commit_or_rollback_def block_commit_def block_rollback_def commit_tx_def)
qed

text \<open>With the primary key, an update of one account checks one new balance.\<close>

lemma update_fits_distinct:
  "distinct (map account_id rows) \<Longrightarrow> balance_of rows k = Some a \<Longrightarrow>
   update_fits f k rows = fits_decimal (f (Some a))"
proof (induction rows)
  case Nil
  then show ?case by (simp add: balance_of_def)
next
  case (Cons r rs)
  show ?case
  proof (cases "account_id r = k")
    case True
    with Cons.prems have "k \<notin> account_id ` set rs"
      by simp
    then have "filter (\<lambda>r. account_id r = k) rs = []"
      unfolding filter_empty_conv by blast
    with True Cons.prems show ?thesis
      by (simp add: update_fits_def balance_of_def)
  next
    case False
    with Cons show ?thesis
      by (simp add: update_fits_def balance_of_def)
  qed
qed

subsection \<open>Every statement keeps the account ids\<close>

lemma keeps_raise_error: "keeps ks s \<Longrightarrow> keeps ks (snd (raise_error e s))"
  by (auto simp: keeps_def raise_error_def split: tx_status.splits)

lemma keeps_bind:
  assumes "\<And>s. keeps ks s \<Longrightarrow> keeps ks (snd (m s))"
    and "\<And>a s. keeps ks s \<Longrightarrow> keeps ks (snd (f a s))"
    and "keeps ks s"
  shows "keeps ks (snd (bind_stmt m f s))"
proof (cases "m s")
  case (Pair r s')
  with assms(1) [OF assms(3)] have "keeps ks s'" by simp
  with Pair assms(2) show ?thesis
    by (cases r) (simp_all add: bind_stmt_def)
qed

lemma keeps_then:
  assumes "\<And>s. keeps ks s \<Longrightarrow> keeps ks (snd (m s))"
    and "\<And>s. keeps ks s \<Longrightarrow> keeps ks (snd (n s))"
    and "keeps ks s"
  shows "keeps ks (snd (then_stmt m n s))"
  unfolding then_stmt_def using assms by (rule keeps_bind)

lemma keeps_update: "keeps ks s \<Longrightarrow> keeps ks (snd (run_sql (update_balance f k) s))"
  by (auto simp: keeps_def run_sql_def update_balance_def raise_error_def ids_def
      ids_set_balance_where split: tx_status.splits option.splits)

lemma keeps_select_balance: "keeps ks s \<Longrightarrow> keeps ks (snd (run_sql (select_balance k) s))"
  by (auto simp: keeps_def run_sql_def select_balance_def raise_error_def ids_def
      split: tx_status.splits option.splits)

lemma keeps_select_all: "keeps ks s \<Longrightarrow> keeps ks (snd (run_sql select_all s))"
  by (auto simp: keeps_def run_sql_def select_all_def raise_error_def ids_def
      split: tx_status.splits option.splits)

lemma keeps_begin: "keeps ks s \<Longrightarrow> keeps ks (snd (begin_tx s))"
  by (auto simp: keeps_def begin_tx_def raise_error_def split: tx_status.splits)

lemma keeps_commit: "keeps ks s \<Longrightarrow> keeps ks (snd (commit_tx s))"
  by (auto simp: keeps_def commit_tx_def split: tx_status.splits)

lemma keeps_rollback: "keeps ks s \<Longrightarrow> keeps ks (snd (rollback_tx s))"
  by (auto simp: keeps_def rollback_tx_def)

lemma keeps_block_commit: "keeps ks s \<Longrightarrow> keeps ks (snd (block_commit s))"
  by (auto simp: keeps_def block_commit_def raise_error_def split: tx_status.splits)

lemma keeps_block_rollback: "keeps ks s \<Longrightarrow> keeps ks (snd (block_rollback s))"
  by (auto simp: keeps_def block_rollback_def raise_error_def split: tx_status.splits)

lemma keeps_assign: "keeps ks s \<Longrightarrow> keeps ks (snd (assign_decimal v s))"
  by (simp add: assign_decimal_def keeps_raise_error)

lemma keeps_Idle: "keeps ks s \<Longrightarrow> keeps ks (s\<lparr>tx := Idle\<rparr>)"
  by (simp add: keeps_def)

lemma keeps_start_block: "keeps ks s \<Longrightarrow> keeps ks (start_block s)"
  by (simp add: keeps_def start_block_def)

lemma keeps_finish_block: "keeps ks (snd r) \<Longrightarrow> keeps ks (snd (finish_block r))"
proof (cases r)
  case (Pair x s')
  assume "keeps ks (snd r)"
  with Pair have "keeps ks s'" by simp
  then have "keeps ks (s'\<lparr>tx := Idle\<rparr>)" and "keeps ks (snd (commit_tx s'))"
    by (rule keeps_Idle, rule keeps_commit)
  with Pair show ?thesis
    by (cases x) (simp_all add: finish_block_def)
qed

lemma keeps_sql_magic:
  assumes "\<And>s. keeps ks s \<Longrightarrow> keeps ks (snd (st s))" and "keeps ks s"
  shows "keeps ks (snd (sql_magic st s))"
proof (cases "st s")
  case (Pair x s')
  with assms(1) [OF assms(2)] have "keeps ks s'" by simp
  then have "keeps ks (s'\<lparr>tx := Idle\<rparr>)" and "keeps ks (snd (commit_tx s'))"
    by (rule keeps_Idle, rule keeps_commit)
  with Pair show ?thesis
    by (cases x) (simp_all add: sql_magic_def)
qed

lemma keeps_do_block:
  assumes "\<And>s. keeps ks s \<Longrightarrow> keeps ks (snd (body s))" and "keeps ks s"
  shows "keeps ks (snd (do_block body s))"
proof (cases "tx s")
  case Idle
  have "keeps ks (snd (finish_block (body (start_block s))))"
    by (intro keeps_finish_block assms(1) keeps_start_block assms(2))
  with Idle show ?thesis
    by (simp add: do_block_def)
next
  case (Active w)
  from assms have "keeps ks (snd (body s))" by simp
  with Active show ?thesis
    by (auto simp: do_block_def split: prod.splits sum.splits)
next
  case (Block w)
  from assms have "keeps ks (snd (body s))" by simp
  with Block show ?thesis
    by (auto simp: do_block_def split: prod.splits sum.splits)
next
  case Failed
  with assms(2) show ?thesis
    by (simp add: do_block_def keeps_raise_error)
qed

lemma keeps_cell_select: "keeps ks s \<Longrightarrow> keeps ks (snd (cell_select s))"
  unfolding cell_select_def
  by (intro keeps_sql_magic keeps_select_all)

lemma keeps_transfer: "keeps ks s \<Longrightarrow> keeps ks (snd (transfer src dst amount s))"
  unfolding transfer_def
  by (intro keeps_then keeps_sql_magic keeps_begin keeps_update keeps_commit)

lemma keeps_deposit: "keeps ks s \<Longrightarrow> keeps ks (snd (deposit k amount s))"
  unfolding deposit_def
  by (intro keeps_sql_magic keeps_do_block keeps_bind keeps_assign keeps_update)

lemma keeps_transfer_block: "keeps ks s \<Longrightarrow> keeps ks (snd (transfer_block src dst amount s))"
  unfolding transfer_block_def
  by (intro keeps_then keeps_sql_magic keeps_do_block keeps_bind keeps_begin keeps_assign
      keeps_update keeps_block_commit)

lemma keeps_commit_or_rollback: "keeps ks s \<Longrightarrow> keeps ks (snd (commit_or_rollback v s))"
  by (simp add: commit_or_rollback_def keeps_block_commit keeps_block_rollback)

lemma keeps_checked_transfer_read:
  "keeps ks s \<Longrightarrow> keeps ks (snd (checked_transfer_read amount s))"
  unfolding checked_transfer_read_def
  by (intro keeps_then keeps_bind keeps_assign keeps_update keeps_select_balance)

lemma keeps_checked_transfer: "keeps ks s \<Longrightarrow> keeps ks (snd (checked_transfer amount s))"
  unfolding checked_transfer_def
  by (intro keeps_then keeps_sql_magic keeps_do_block keeps_bind keeps_begin
      keeps_checked_transfer_read keeps_commit_or_rollback)

subsection \<open>The sessions of the notebook\<close>

lemma after_cell22_eq:
  "after_cell22 = \<lparr>stored = Some [row ''A'' 90000, row ''B'' 60000], tx = Idle\<rparr>"
  by (simp add: after_cell22_def after_cell8_eq cell22_def transfer_def stmt_defs command_defs)

lemma after_cell35_eq:
  "after_cell35 = \<lparr>stored = Some [row ''A'' 100000, row ''B'' 60000], tx = Idle\<rparr>"
  by (simp add: after_cell35_def after_cell22_eq cell35_def deposit_def stmt_defs command_defs)

lemma after_cell41_eq:
  "after_cell41 = \<lparr>stored = Some [row ''A'' 90000, row ''B'' 70000], tx = Idle\<rparr>"
  by (simp add: after_cell41_def after_cell35_eq cell41_def transfer_block_def stmt_defs command_defs)

lemma cell48_read:
  "checked_transfer_read 1000000 (start_block after_cell41) =
     (Inr (Some (- 910000)),
      \<lparr>stored = Some [row ''A'' 90000, row ''B'' 70000],
       tx = Block (Some [row ''A'' (- 910000), row ''B'' 1070000])\<rparr>)"
  by (simp add: after_cell41_eq checked_transfer_read_def stmt_defs command_defs)

lemma cell48_split:
  "cell48 after_cell41 =
     finish_block
       (bind_stmt (checked_transfer_read 1000000) commit_or_rollback (start_block after_cell41))"
  unfolding cell48_def
  by (rule checked_transfer_split) (simp add: after_cell41_eq)

lemma cell48_after_cell41: "cell48 after_cell41 = (Inr (), after_cell41)"
  by (simp add: cell48_split bind_stmt_def cell48_read commit_or_rollback_def sql_ge_def
      block_rollback_def finish_block_def commit_tx_def)
     (simp add: after_cell41_eq)

lemma after_cell48_eq:
  "after_cell48 = \<lparr>stored = Some [row ''A'' 90000, row ''B'' 70000], tx = Idle\<rparr>"
  by (simp add: after_cell48_def cell48_after_cell41) (simp add: after_cell41_eq)

lemma shows_rows_stored:
  "tx s = Idle \<Longrightarrow> stored s = Some rows \<Longrightarrow>
   shows_rows s recorded = (set rows = set recorded \<and> length rows = length recorded)"
  by (simp add: shows_rows_def cell_select_def sql_magic_def run_sql_def select_all_def)

subsection \<open>The transfer written as a block applies both updates or neither\<close>

lemma transfer_block_both_or_neither:
  assumes "src \<noteq> dst" and "tx s = Idle" and "stored s = Some rows"
    and "distinct (map account_id rows)"
    and "balance_of rows src = Some a" and "balance_of rows dst = Some b"
  shows "transfer_block src dst amount s =
       (if fits_decimal (Some amount) \<and>
           fits_decimal (Some (a - amount)) \<and> fits_decimal (Some (b + amount))
        then (Inr (), s\<lparr>stored := Some (credit amount dst (debit amount src rows))\<rparr>)
        else (Inl NumericValueOutOfRange, s))"
proof -
  have debit_fits:
    "update_fits (\<lambda>b. sql_minus b (Some amount)) src rows = fits_decimal (Some (a - amount))"
    using update_fits_distinct [OF assms(4,5)] by (simp add: sql_minus_def)
  have "balance_of (debit amount src rows) dst = Some b"
    using assms(1,6) by (simp add: debit_def balance_of_set_other)
  moreover have "distinct (map account_id (debit amount src rows))"
    using assms(4) by (simp add: debit_def ids_set_balance_where)
  ultimately have credit_fits:
    "update_fits (\<lambda>b. sql_plus b (Some amount)) dst (debit amount src rows) =
       fits_decimal (Some (b + amount))"
    using update_fits_distinct by (simp add: sql_plus_def)
  show ?thesis
    using transfer_block_Idle [OF assms(2,3), of src dst amount]
    by (simp only: debit_fits credit_fits)
qed

section \<open>Properties of the notebook\<close>

text \<open>
  C4. Immediately after the bulk insert of cell 8, the accounts table is exactly two rows:
  account A with balance 1000.00 and account B with balance 500.00. This holds from any
  session with no open transaction, whatever the database held before, since the cell drops
  and creates the table first; the cell returns the two rows, and a \<open>SELECT *\<close> afterwards
  shows the rows that cell 20 records.
\<close>

theorem initial_state:
  "tx s = Idle \<Longrightarrow>
   fst (cell8 s) = Inr [row ''A'' 100000, row ''B'' 50000] \<and>
   stored (snd (cell8 s)) = Some [row ''A'' 100000, row ''B'' 50000] \<and>
   tx (snd (cell8 s)) = Idle \<and>
   shows_rows (snd (cell8 s)) recorded_cell20"
  by (simp add: cell8_Idle shows_rows_stored recorded_cell20_def)

theorem initial_state_witness:
  "tx fresh = Idle \<and>
   fst (cell8 fresh) = Inr [row ''A'' 100000, row ''B'' 50000] \<and>
   stored (snd (cell8 fresh)) = Some [row ''A'' 100000, row ''B'' 50000] \<and>
   tx (snd (cell8 fresh)) = Idle \<and>
   shows_rows (snd (cell8 fresh)) recorded_cell20"
proof -
  have idle: "tx fresh = Idle" by (simp add: fresh_def)
  from initial_state [OF idle] idle show ?thesis by simp
qed

text \<open>
  C5. Starting from the initial state (A = 1000.00, B = 500.00), after the committed transfer
  of 100 from A to B in cell 22 the balances are A = 900.00 and B = 600.00, as cell 24 records.
\<close>

theorem committed_transfer:
  "stored after_cell8 = Some [row ''A'' 100000, row ''B'' 50000] \<and>
   cell22 after_cell8 =
     (Inr (), \<lparr>stored = Some [row ''A'' 90000, row ''B'' 60000], tx = Idle\<rparr>) \<and>
   stored after_cell22 = Some [row ''A'' 90000, row ''B'' 60000] \<and>
   shows_rows after_cell22 recorded_cell24"
proof -
  have "tx after_cell8 = Idle" "stored after_cell8 = Some [row ''A'' 100000, row ''B'' 50000]"
    by (simp_all add: after_cell8_eq)
  from transfer_Idle [OF this, of "''A''" "''B''" 10000]
  have "cell22 after_cell8 =
     (Inr (), \<lparr>stored = Some [row ''A'' 90000, row ''B'' 60000], tx = Idle\<rparr>)"
    by (simp add: cell22_def after_cell8_eq debit_def credit_def command_defs)
  then show ?thesis
    by (simp add: after_cell8_eq after_cell22_eq shows_rows_stored recorded_cell24_def)
qed

text \<open>
  C6. Starting from the state after the transfer (A = 900.00, B = 600.00), after the deposit
  of 100 to account A by the block of cell 35 the balances are A = 1000.00 and B = 600.00:
  only the row of A changes, the rows of the other accounts are the same before and after,
  and cell 37 records these rows.
\<close>

theorem deposit_to_A:
  "stored after_cell22 = Some [row ''A'' 90000, row ''B'' 60000] \<and>
   cell35 after_cell22 =
     (Inr (), \<lparr>stored = Some [row ''A'' 100000, row ''B'' 60000], tx = Idle\<rparr>) \<and>
   stored after_cell35 = Some [row ''A'' 100000, row ''B'' 60000] \<and>
   filter (\<lambda>r. account_id r \<noteq> ''A'') [row ''A'' 100000, row ''B'' 60000] =
     filter (\<lambda>r. account_id r \<noteq> ''A'') [row ''A'' 90000, row ''B'' 60000] \<and>
   shows_rows after_cell35 recorded_cell37"
proof -
  have "cell35 after_cell22 =
     (Inr (), \<lparr>stored = Some [row ''A'' 100000, row ''B'' 60000], tx = Idle\<rparr>)"
    by (simp add: after_cell22_eq cell35_def deposit_def stmt_defs command_defs)
  moreover have "set [row ''A'' 100000, row ''B'' 60000] = set recorded_cell37"
    by (auto simp: recorded_cell37_def)
  ultimately show ?thesis
    by (simp add: after_cell22_eq after_cell35_eq shows_rows_stored recorded_cell37_def row_def)
qed

text \<open>
  C7. Starting from the state after the deposit (A = 1000.00, B = 600.00), after the second
  transfer of 100 from A to B, run inside the block of cell 41, the balances are A = 900.00
  and B = 700.00, as cell 43 records.
\<close>

theorem second_transfer:
  "stored after_cell35 = Some [row ''A'' 100000, row ''B'' 60000] \<and>
   cell41 after_cell35 =
     (Inr (), \<lparr>stored = Some [row ''A'' 90000, row ''B'' 70000], tx = Idle\<rparr>) \<and>
   stored after_cell41 = Some [row ''A'' 90000, row ''B'' 70000] \<and>
   shows_rows after_cell41 recorded_cell43"
proof -
  have "tx after_cell35 = Idle" "stored after_cell35 = Some [row ''A'' 100000, row ''B'' 60000]"
    by (simp_all add: after_cell35_eq)
  from transfer_block_Idle [OF this, of "''A''" "''B''" 10000]
  have "cell41 after_cell35 =
     (Inr (), \<lparr>stored = Some [row ''A'' 90000, row ''B'' 70000], tx = Idle\<rparr>)"
    by (simp add: cell41_def after_cell35_eq debit_def credit_def command_defs)
  then show ?thesis
    by (simp add: after_cell35_eq after_cell41_eq shows_rows_stored recorded_cell43_def)
qed

text \<open>
  C1. In the rollback example (cell 48), the transfer of 10000 from A to B exceeds the
  balance 900.00 of A: the block runs its statements up to the \<open>SELECT ... INTO\<close> in its own
  transaction, the check reads -9100.00, the \<open>IF\<close> takes the \<open>ROLLBACK\<close> branch, and the
  cell leaves the session exactly as it was before the cell began. A remains 900.00 and B
  remains 700.00, as cell 50 records.
\<close>

theorem rollback_leaves_balances:
  "stored after_cell41 = Some [row ''A'' 90000, row ''B'' 70000] \<and>
   cell48 after_cell41 =
     finish_block
       (bind_stmt (checked_transfer_read 1000000) commit_or_rollback (start_block after_cell41)) \<and>
   fst (checked_transfer_read 1000000 (start_block after_cell41)) = Inr (Some (- 910000)) \<and>
   commit_or_rollback (Some (- 910000)) = block_rollback \<and>
   cell48 after_cell41 = (Inr (), after_cell41) \<and>
   stored after_cell48 = Some [row ''A'' 90000, row ''B'' 70000] \<and>
   shows_rows after_cell48 recorded_cell50"
proof -
  have "shows_rows after_cell48 recorded_cell50"
    by (simp add: after_cell48_eq shows_rows_stored recorded_cell50_def)
  moreover have "commit_or_rollback (Some (- 910000)) = block_rollback"
    by (simp add: commit_or_rollback_def sql_ge_def)
  moreover have "stored after_cell41 = Some [row ''A'' 90000, row ''B'' 70000]"
    "stored after_cell48 = Some [row ''A'' 90000, row ''B'' 70000]"
    by (simp_all add: after_cell41_eq after_cell48_eq)
  moreover have "fst (checked_transfer_read 1000000 (start_block after_cell41)) =
      Inr (Some (- 910000))"
    by (simp add: cell48_read)
  ultimately show ?thesis
    using cell48_split cell48_after_cell41 by (intro conjI)
qed


text \<open>
  C2. A transfer decrements the source by the amount and increments the destination by
  the amount, and the two updates apply together or not at all. The transfer of cell 22
  does not: its statements are committed one by one, so when the credit raises the debit
  stays. On the table A = 1000.00, B = 99999999.99 (a table the \<open>INSERT\<close> of cell 8 accepts)
  the transfer of 100 written as in cell 22 raises on the credit, whose result does not
  fit \<open>DECIMAL(10, 2)\<close>, and leaves A = 900.00 committed and B unchanged. The same transfer
  written as the block of cell 41 raises and leaves the table unchanged. The same happens
  on the table of cell 8 itself with the amount 99999500.00: cell 22's shape leaves
  A = -99998500.00 and B = 500.00, the block leaves the table unchanged.
\<close>

theorem transfer_not_atomic:
  "run_sql (insert_returning [row ''A'' 100000, row ''B'' 9999999999]) \<lparr>stored = Some [], tx = Idle\<rparr> =
     (Inr [row ''A'' 100000, row ''B'' 9999999999],
      \<lparr>stored = Some [row ''A'' 100000, row ''B'' 9999999999], tx = Idle\<rparr>) \<and>
   transfer ''A'' ''B'' 10000 \<lparr>stored = Some [row ''A'' 100000, row ''B'' 9999999999], tx = Idle\<rparr> =
     (Inl NumericValueOutOfRange,
      \<lparr>stored = Some [row ''A'' 90000, row ''B'' 9999999999], tx = Idle\<rparr>) \<and>
   transfer_block ''A'' ''B'' 10000 \<lparr>stored = Some [row ''A'' 100000, row ''B'' 9999999999], tx = Idle\<rparr> =
     (Inl NumericValueOutOfRange,
      \<lparr>stored = Some [row ''A'' 100000, row ''B'' 9999999999], tx = Idle\<rparr>) \<and>
   stored after_cell8 = Some [row ''A'' 100000, row ''B'' 50000] \<and>
   transfer ''A'' ''B'' 9999950000 after_cell8 =
     (Inl NumericValueOutOfRange,
      \<lparr>stored = Some [row ''A'' (- 9999850000), row ''B'' 50000], tx = Idle\<rparr>) \<and>
   transfer_block ''A'' ''B'' 9999950000 after_cell8 = (Inl NumericValueOutOfRange, after_cell8)"
proof -
  let ?s = "\<lparr>stored = Some [row ''A'' 100000, row ''B'' 9999999999], tx = Idle\<rparr>"
  have s: "tx ?s = Idle" "stored ?s = Some [row ''A'' 100000, row ''B'' 9999999999]"
    by simp_all
  have s8: "tx after_cell8 = Idle" "stored after_cell8 = Some [row ''A'' 100000, row ''B'' 50000]"
    by (simp_all add: after_cell8_eq)
  have "run_sql (insert_returning [row ''A'' 100000, row ''B'' 9999999999]) \<lparr>stored = Some [], tx = Idle\<rparr> =
     (Inr [row ''A'' 100000, row ''B'' 9999999999], ?s)"
    by (simp add: run_sql_def command_defs)
  moreover have "transfer ''A'' ''B'' 10000 ?s =
     (Inl NumericValueOutOfRange,
      \<lparr>stored = Some [row ''A'' 90000, row ''B'' 9999999999], tx = Idle\<rparr>)"
    using transfer_Idle [OF s, of "''A''" "''B''" 10000]
    by (simp add: debit_def command_defs)
  moreover have "transfer_block ''A'' ''B'' 10000 ?s = (Inl NumericValueOutOfRange, ?s)"
    using transfer_block_Idle [OF s, of "''A''" "''B''" 10000]
    by (simp add: debit_def command_defs)
  moreover have "transfer ''A'' ''B'' 9999950000 after_cell8 =
     (Inl NumericValueOutOfRange,
      \<lparr>stored = Some [row ''A'' (- 9999850000), row ''B'' 50000], tx = Idle\<rparr>)"
    using transfer_Idle [OF s8, of "''A''" "''B''" 9999950000]
    by (simp add: after_cell8_eq debit_def command_defs)
  moreover have "transfer_block ''A'' ''B'' 9999950000 after_cell8 =
      (Inl NumericValueOutOfRange, after_cell8)"
    using transfer_block_Idle [OF s8, of "''A''" "''B''" 9999950000]
    by (simp add: debit_def command_defs)
  ultimately show ?thesis
    using s8(2) by (intro conjI)
qed

text \<open>
  C3. The transfer with a check (cell 48, for any amount and any table): the cell runs
  without error exactly when the amount and the new balances fit \<open>DECIMAL(10, 2)\<close>, and
  otherwise raises and leaves the session as it was, with no open transaction and nothing
  stored. When it runs without error, the transaction of the block commits if and
  only if the check on the balance of A, read after both updates, succeeds: if the check
  succeeds the rows after both updates are stored, and the cell does what the committing
  transfer of cell 41 does; if the check does not succeed (the balance is negative or
  NULL) the transaction is rolled back and the session is as before. Where the updates
  change the table at all, the updated rows are stored if and only if the check succeeds.
\<close>

theorem checked_transfer_commits_iff:
  assumes "tx s = Idle" and "stored s = Some rows"
  shows
    "(fst (checked_transfer amount s) = Inr ()) =
       (fits_decimal (Some amount) \<and>
        update_fits (\<lambda>b. sql_minus b (Some amount)) ''A'' rows \<and>
        update_fits (\<lambda>b. sql_plus b (Some amount)) ''B'' (debit amount ''A'' rows)) \<and>
     (fst (checked_transfer amount s) \<noteq> Inr () \<longrightarrow>
        checked_transfer amount s = (Inl NumericValueOutOfRange, s)) \<and>
     (fst (checked_transfer amount s) = Inr () \<longrightarrow>
        (sql_ge (balance_of (credit amount ''B'' (debit amount ''A'' rows)) ''A'') (Some 0) = Some True \<longrightarrow>
           checked_transfer amount s =
             (Inr (), \<lparr>stored = Some (credit amount ''B'' (debit amount ''A'' rows)), tx = Idle\<rparr>) \<and>
           checked_transfer amount s = transfer_block ''A'' ''B'' amount s) \<and>
        (sql_ge (balance_of (credit amount ''B'' (debit amount ''A'' rows)) ''A'') (Some 0) \<noteq> Some True \<longrightarrow>
           checked_transfer amount s = (Inr (), s)) \<and>
        (credit amount ''B'' (debit amount ''A'' rows) \<noteq> rows \<longrightarrow>
           (stored (snd (checked_transfer amount s)) =
              Some (credit amount ''B'' (debit amount ''A'' rows))) =
           (sql_ge (balance_of (credit amount ''B'' (debit amount ''A'' rows)) ''A'') (Some 0) = Some True)))"
proof -
  let ?moved = "credit amount ''B'' (debit amount ''A'' rows)"
  let ?ok = "fits_decimal (Some amount) \<and>
         update_fits (\<lambda>b. sql_minus b (Some amount)) ''A'' rows \<and>
         update_fits (\<lambda>b. sql_plus b (Some amount)) ''B'' (debit amount ''A'' rows)"
  have s: "s = \<lparr>stored = Some rows, tx = Idle\<rparr>"
    using assms by (cases s) simp
  note ct = checked_transfer_Idle [OF assms, of amount]
  note tb = transfer_block_Idle [OF assms, of "''A''" "''B''" amount]
  show ?thesis
  proof (cases ?ok)
    case True
    then have res: "checked_transfer amount s =
        (Inr (), s\<lparr>stored := Some (if sql_ge (balance_of ?moved ''A'') (Some 0) = Some True
                                     then ?moved else rows)\<rparr>)"
      and tb': "transfer_block ''A'' ''B'' amount s = (Inr (), s\<lparr>stored := Some ?moved\<rparr>)"
      using ct tb by (simp_all only: if_True simp_thms)
    from True show ?thesis
      unfolding res tb' unfolding s by auto
  next
    case False
    then have res: "checked_transfer amount s = (Inl NumericValueOutOfRange, s)"
      using ct by (simp only: if_False)
    from False show ?thesis
      unfolding res by simp
  qed
qed

theorem checked_transfer_commits_iff_witness:
  "tx after_cell41 = Idle \<and> stored after_cell41 = Some [row ''A'' 90000, row ''B'' 70000] \<and>
   fst (checked_transfer 10000 after_cell41) = Inr () \<and>
   sql_ge (balance_of (credit 10000 ''B'' (debit 10000 ''A'' [row ''A'' 90000, row ''B'' 70000])) ''A'')
     (Some 0) = Some True \<and>
   checked_transfer 10000 after_cell41 =
     (Inr (), \<lparr>stored = Some [row ''A'' 80000, row ''B'' 80000], tx = Idle\<rparr>) \<and>
   fst (checked_transfer 1000000 after_cell41) = Inr () \<and>
   sql_ge (balance_of (credit 1000000 ''B'' (debit 1000000 ''A'' [row ''A'' 90000, row ''B'' 70000])) ''A'')
     (Some 0) \<noteq> Some True \<and>
   checked_transfer 1000000 after_cell41 = (Inr (), after_cell41)"
proof -
  have h: "tx after_cell41 = Idle" "stored after_cell41 = Some [row ''A'' 90000, row ''B'' 70000]"
    by (simp_all add: after_cell41_eq)
  have small: "fits_decimal (Some 10000) \<and>
        update_fits (\<lambda>b. sql_minus b (Some 10000)) ''A'' [row ''A'' 90000, row ''B'' 70000] \<and>
        update_fits (\<lambda>b. sql_plus b (Some 10000)) ''B'' (debit 10000 ''A'' [row ''A'' 90000, row ''B'' 70000])"
    and large: "fits_decimal (Some 1000000) \<and>
        update_fits (\<lambda>b. sql_minus b (Some 1000000)) ''A'' [row ''A'' 90000, row ''B'' 70000] \<and>
        update_fits (\<lambda>b. sql_plus b (Some 1000000)) ''B'' (debit 1000000 ''A'' [row ''A'' 90000, row ''B'' 70000])"
    by (simp_all add: debit_def command_defs)
  have moved: "credit 10000 ''B'' (debit 10000 ''A'' [row ''A'' 90000, row ''B'' 70000]) =
      [row ''A'' 80000, row ''B'' 80000]"
    "credit 1000000 ''B'' (debit 1000000 ''A'' [row ''A'' 90000, row ''B'' 70000]) =
      [row ''A'' (- 910000), row ''B'' 1070000]"
    by (simp_all add: credit_def debit_def command_defs)
  from checked_transfer_commits_iff [OF h, of 10000]
       checked_transfer_commits_iff [OF h, of 1000000] small large h
  show ?thesis
    by (simp add: moved) (simp add: balance_of_def row_def sql_ge_def after_cell41_eq)
qed

text \<open>
  C8. After the bulk insert the table has the rows of A and B, and over the whole sequence
  of cells the rows stay the same: every later cell (22, 35, 41, 48, the \<open>SELECT\<close> cells, and
  the block of cell 48 up to its check) keeps the list of account ids of the stored table and of the
  working copy of an open transaction, on every session. No row is inserted or deleted and
  no account id changes; only balances are written. The table after each of the cells
  8, 22, 35, 41 and 48 has exactly the ids A and B.
\<close>

theorem account_rows_constant:
  "keeps [''A'', ''B''] after_cell8 \<and>
   (\<forall>ks s. keeps ks s \<longrightarrow>
      keeps ks (snd (cell22 s)) \<and> keeps ks (snd (cell35 s)) \<and> keeps ks (snd (cell41 s)) \<and>
      keeps ks (snd (cell48 s)) \<and> keeps ks (snd (cell_select s)) \<and>
      keeps ks (snd (then_stmt begin_tx (checked_transfer_read 1000000) s)) \<and>
      keeps ks (snd (checked_transfer_read 1000000 (start_block s)))) \<and>
   map (\<lambda>s. ids (stored s)) [after_cell8, after_cell22, after_cell35, after_cell41, after_cell48] =
     [Some [''A'', ''B''], Some [''A'', ''B''], Some [''A'', ''B''], Some [''A'', ''B''],
      Some [''A'', ''B'']]"
proof -
  have read: "keeps ks (snd (then_stmt begin_tx (checked_transfer_read 1000000) s))"
    if "keeps ks s" for ks s
    using that
    by (intro keeps_then keeps_begin keeps_checked_transfer_read)
  show ?thesis
    by (simp add: cell22_def cell35_def cell41_def cell48_def keeps_transfer keeps_deposit
        keeps_transfer_block keeps_checked_transfer keeps_cell_select read
        keeps_checked_transfer_read keeps_start_block)
       (simp add: after_cell8_eq after_cell22_eq after_cell35_eq after_cell41_eq after_cell48_eq keeps_def ids_def
        row_def)
qed

theorem account_rows_constant_witness:
  "keeps [''A'', ''B''] after_cell8 \<and>
   keeps [''A'', ''B''] (snd (cell22 after_cell8)) \<and>
   keeps [''A'', ''B''] (snd (cell48 after_cell8)) \<and>
   ids (stored (snd (cell22 after_cell8))) = Some [''A'', ''B'']"
proof -
  from account_rows_constant have k: "keeps [''A'', ''B''] after_cell8"
    and step: "\<And>ks s. keeps ks s \<Longrightarrow> keeps ks (snd (cell22 s)) \<and> keeps ks (snd (cell48 s))"
    by blast+
  from step [OF k] k show ?thesis
    by (simp add: keeps_def)
qed

text \<open>
  C9. The decision of cell 48 depends on the balance of A alone: on any table where A has
  balance \<open>a\<close>, whenever the cell runs without error it commits both updates if
  \<open>amount \<le> a\<close> and rolls back otherwise, whatever the row of B holds. No constraint of the
  table keeps a balance from going negative: an update that makes the balance of B negative
  and an insert of a negative balance both succeed. So a negative balance of B does not
  make the cell roll back: with the amount -1000.00 the cell commits A = 1900.00 and
  B = -300.00, and from that table a transfer of 100 commits again with B still negative.
\<close>

theorem check_reads_source_only:
  assumes "tx s = Idle" and "stored s = Some rows"
    and "balance_of rows ''A'' = Some a"
    and "fst (checked_transfer amount s) = Inr ()"
  shows
    "checked_transfer amount s =
       (Inr (), \<lparr>stored = Some (if amount \<le> a then credit amount ''B'' (debit amount ''A'' rows) else rows),
                 tx = Idle\<rparr>) \<and>
     checked_transfer (- 100000) after_cell41 =
       (Inr (), \<lparr>stored = Some [row ''A'' 190000, row ''B'' (- 30000)], tx = Idle\<rparr>) \<and>
     checked_transfer 10000 \<lparr>stored = Some [row ''A'' 190000, row ''B'' (- 30000)], tx = Idle\<rparr> =
       (Inr (), \<lparr>stored = Some [row ''A'' 180000, row ''B'' (- 20000)], tx = Idle\<rparr>) \<and>
     run_sql (update_balance (\<lambda>b. sql_minus b (Some 100000)) ''B'') after_cell41 =
       (Inr 1, \<lparr>stored = Some [row ''A'' 90000, row ''B'' (- 30000)], tx = Idle\<rparr>) \<and>
     run_sql (insert_returning [row ''C'' (- 1)]) after_cell41 =
       (Inr [row ''C'' (- 1)],
        \<lparr>stored = Some [row ''A'' 90000, row ''B'' 70000, row ''C'' (- 1)], tx = Idle\<rparr>)"
proof -
  have s: "s = \<lparr>stored = Some rows, tx = Idle\<rparr>"
    using assms(1,2) by (cases s) simp
  note ct = checked_transfer_Idle [OF assms(1,2), of amount]
  have ok: "fits_decimal (Some amount) \<and>
         update_fits (\<lambda>b. sql_minus b (Some amount)) ''A'' rows \<and>
         update_fits (\<lambda>b. sql_plus b (Some amount)) ''B'' (debit amount ''A'' rows)"
  proof (rule ccontr)
    assume "\<not> ?thesis"
    with ct have "fst (checked_transfer amount s) = Inl NumericValueOutOfRange"
      by (simp only: if_False fst_conv)
    with assms(4) show False by simp
  qed
  have general: "checked_transfer amount s =
       (Inr (), \<lparr>stored = Some (if amount \<le> a then credit amount ''B'' (debit amount ''A'' rows) else rows),
                 tx = Idle\<rparr>)"
    using ct ok unfolding s
    by (simp add: balance_of_debited [OF assms(3)] sql_ge_def)
  have idle: "tx after_cell41 = Idle" "stored after_cell41 = Some [row ''A'' 90000, row ''B'' 70000]"
    by (simp_all add: after_cell41_eq)
  have neg: "checked_transfer (- 100000) after_cell41 =
       (Inr (), \<lparr>stored = Some [row ''A'' 190000, row ''B'' (- 30000)], tx = Idle\<rparr>)"
    using checked_transfer_Idle [OF idle, of "- 100000"]
    by (simp add: after_cell41_eq credit_def debit_def command_defs)
  have neg2: "checked_transfer 10000 \<lparr>stored = Some [row ''A'' 190000, row ''B'' (- 30000)], tx = Idle\<rparr> =
       (Inr (), \<lparr>stored = Some [row ''A'' 180000, row ''B'' (- 20000)], tx = Idle\<rparr>)"
    using checked_transfer_Idle [of "\<lparr>stored = Some [row ''A'' 190000, row ''B'' (- 30000)], tx = Idle\<rparr>"
        "[row ''A'' 190000, row ''B'' (- 30000)]" 10000]
    by (simp add: credit_def debit_def command_defs)
  have upd: "run_sql (update_balance (\<lambda>b. sql_minus b (Some 100000)) ''B'') after_cell41 =
       (Inr 1, \<lparr>stored = Some [row ''A'' 90000, row ''B'' (- 30000)], tx = Idle\<rparr>)"
    by (simp add: after_cell41_eq run_sql_def command_defs)
  have ins: "run_sql (insert_returning [row ''C'' (- 1)]) after_cell41 =
       (Inr [row ''C'' (- 1)],
        \<lparr>stored = Some [row ''A'' 90000, row ''B'' 70000, row ''C'' (- 1)], tx = Idle\<rparr>)"
    by (simp add: after_cell41_eq run_sql_def command_defs)
  from general neg neg2 upd ins show ?thesis
    by (intro conjI)
qed

theorem check_reads_source_only_witness:
  "tx after_cell41 = Idle \<and> stored after_cell41 = Some [row ''A'' 90000, row ''B'' 70000] \<and>
   balance_of [row ''A'' 90000, row ''B'' 70000] ''A'' = Some 90000 \<and>
   fst (checked_transfer (- 100000) after_cell41) = Inr () \<and>
   checked_transfer (- 100000) after_cell41 =
     (Inr (), \<lparr>stored = Some (credit (- 100000) ''B'' (debit (- 100000) ''A'' [row ''A'' 90000, row ''B'' 70000])),
               tx = Idle\<rparr>) \<and>
   \<not> non_negative (credit (- 100000) ''B'' (debit (- 100000) ''A'' [row ''A'' 90000, row ''B'' 70000]))"
proof -
  have h: "tx after_cell41 = Idle" "stored after_cell41 = Some [row ''A'' 90000, row ''B'' 70000]"
    "balance_of [row ''A'' 90000, row ''B'' 70000] ''A'' = Some 90000"
    by (simp_all add: after_cell41_eq balance_of_def row_def)
  have ok: "fst (checked_transfer (- 100000) after_cell41) = Inr ()"
    using checked_transfer_Idle [OF h(1,2), of "- 100000"]
    by (simp add: debit_def command_defs)
  from check_reads_source_only [OF h ok] h ok show ?thesis
    by (simp add: credit_def debit_def non_negative_def set_balance_where_def row_def
        sql_plus_def sql_minus_def)
qed

end
